theory Spec2Isabelle
  imports Complex_Main
begin

section \<open>The execution service of the Puffing Language API (backend/services.py)\<close>

subsection \<open>Exceptions\<close>

text \<open>
  The service distinguishes exceptions only by the \<open>except\<close> clause that receives them:
  \<open>except TimeoutException\<close>, \<open>except PuffingError\<close>, \<open>except Exception\<close>, in this order.
  \<open>exc_base\<close> names the first of these clauses an exception is an instance of;
  \<open>BaseOnly\<close> is an exception that none of them receives (an instance of BaseException
  but not of Exception, such as KeyboardInterrupt or SystemExit).
  \<open>cls_name\<close> is \<open>e.__class__.__name__\<close> and \<open>message\<close> is \<open>str(e)\<close>.
\<close>

datatype exc_class = TimeoutException | PuffingError | OtherException | BaseOnly

record pyexc =
  exc_base :: exc_class
  cls_name :: string
  message :: string

text \<open>\<open>timeout_handler\<close> raises \<open>TimeoutException("Code execution timed out")\<close>.\<close>

definition timeout_handler :: pyexc where
  "timeout_handler =
     \<lparr>exc_base = TimeoutException, cls_name = ''TimeoutException'',
      message = ''Code execution timed out''\<rparr>"

subsection \<open>The collaborators: lexer, parser, interpreter\<close>

text \<open>
  \<open>Lexer\<close>, \<open>Parser\<close> and \<open>Interpreter\<close> are imported from the language package and are
  parameters here. A token carries \<open>str(token.type)\<close> and \<open>token.value\<close>.
  Tokenizing and parsing return or raise; the time they take is not counted.
  Running a program is described by the time it needs (in seconds) and what it does at the
  end: it returns, having printed a text to \<open>sys.stdout\<close>, or it raises, or it never ends.
\<close>

record 'v token =
  tok_type :: string
  tok_value :: 'v

datatype behaviour = Completes real string | Throws real pyexc | Diverges

record ('v, 'ast) lang =
  tokenize :: "string \<Rightarrow> pyexc + 'v token list"
  parse :: "'v token list \<Rightarrow> pyexc + 'ast"
  run :: "'ast \<Rightarrow> behaviour"

subsection \<open>The interpreter process: \<open>sys.stdout\<close> and the stream objects\<close>

text \<open>
  \<open>sys.stdout\<close> is one process-wide variable holding a reference to a stream object.
  Stream objects are numbered; \<open>buffers\<close> gives the text written to each so far and
  \<open>fresh\<close> is the next unused number.
\<close>

type_synonym stream_id = nat

record pystate =
  sys_stdout :: stream_id
  buffers :: "stream_id \<Rightarrow> string"
  fresh :: stream_id

definition StringIO :: "pystate \<Rightarrow> stream_id \<times> pystate" where
  "StringIO st =
     (fresh st, st\<lparr>buffers := (buffers st)(fresh st := []), fresh := Suc (fresh st)\<rparr>)"

definition write_stdout :: "string \<Rightarrow> pystate \<Rightarrow> pystate" where
  "write_stdout s st =
     st\<lparr>buffers := (buffers st)(sys_stdout st := buffers st (sys_stdout st) @ s)\<rparr>"

definition getvalue :: "stream_id \<Rightarrow> pystate \<Rightarrow> string" where
  "getvalue sid st = buffers st sid"

subsection \<open>The environment of a call\<close>

text \<open>
  \<open>win32\<close> is \<open>sys.platform == 'win32'\<close>. \<open>arm_fault\<close> is the exception, if any, that
  \<open>signal.signal\<close> or \<open>signal.alarm\<close> raises (ValueError outside the main thread,
  OverflowError for a number of seconds beyond a C int). \<open>clock_start\<close> and \<open>clock_end\<close>
  are the two readings of \<open>time.time()\<close> a call takes, and \<open>format_exc\<close> is
  \<open>traceback.format_exc()\<close> for the exception being handled.
\<close>

record env =
  win32 :: bool
  arm_fault :: "pyexc option"
  clock_start :: real
  clock_end :: real
  format_exc :: "pyexc \<Rightarrow> string"

subsection \<open>\<open>time_limit\<close>\<close>

text \<open>
  \<open>signal.alarm(seconds)\<close> passes its argument to the C function, which takes an unsigned
  int: zero schedules no alarm, any other value schedules SIGALRM after
  \<open>seconds mod 2^32\<close> seconds.
\<close>

definition alarm_after :: "int \<Rightarrow> real option" where
  "alarm_after seconds =
     (if seconds mod 2 ^ 32 = 0 then None else Some (real_of_int (seconds mod 2 ^ 32)))"

text \<open>
  On win32 the body runs as it is. Elsewhere the handler is installed and the alarm
  armed; when the alarm goes off before the body has ended, the handler raises
  \<open>TimeoutException\<close> inside the body, which is taken to let it pass. A body that
  ends exactly at the deadline is taken to have ended.
\<close>

definition time_limit :: "env \<Rightarrow> int \<Rightarrow> behaviour \<Rightarrow> behaviour" where
  "time_limit ev seconds body =
     (if \<not> win32 ev then
        (case arm_fault ev of
           Some e \<Rightarrow> Throws 0 e
         | None \<Rightarrow>
             (case alarm_after seconds of
                None \<Rightarrow> body
              | Some d \<Rightarrow>
                  (case body of
                     Completes t out \<Rightarrow>
                       if t \<le> d then Completes t out else Throws d timeout_handler
                   | Throws t e \<Rightarrow>
                       if t \<le> d then Throws t e else Throws d timeout_handler
                   | Diverges \<Rightarrow> Throws d timeout_handler)))
      else body)"

subsection \<open>Formatting\<close>

text \<open>\<open>str\<close> of an integer, as the f-string of the timeout message uses it.\<close>

fun str_nat :: "nat \<Rightarrow> string" where
  "str_nat n =
     (if n < 10 then [char_of (48 + n)]
      else str_nat (n div 10) @ [char_of (48 + n mod 10)])"

declare str_nat.simps [simp del]

definition str_int :: "int \<Rightarrow> string" where
  "str_int i = (if i < 0 then CHR ''-'' # str_nat (nat (- i)) else str_nat (nat i))"

text \<open>
  \<open>round(x, ndigits)\<close>: to the nearest multiple of \<open>10^(-ndigits)\<close>, a tie going to the
  even one. Floats are taken as reals.
\<close>

definition py_round :: "real \<Rightarrow> nat \<Rightarrow> real" where
  "py_round x ndigits =
     (let y = x * 10 ^ ndigits;
          f = \<lfloor>y\<rfloor>;
          d = y - of_int f
      in (if d < 1 / 2 then of_int f
          else if 1 / 2 < d then of_int (f + 1)
          else if even f then of_int f else of_int (f + 1)) / 10 ^ ndigits)"

subsection \<open>\<open>PuffingExecutor.execute\<close>\<close>

text \<open>The dictionary that \<open>execute\<close> returns: six keys, a value or \<open>None\<close> under each
  (\<open>program_output\<close> is the key \<open>output\<close>).\<close>

record result =
  success :: bool
  program_output :: "string option"
  error :: "string option"
  error_type :: "string option"
  traceback :: "string option"
  execution_time :: "real option"

text \<open>
  A call returns a value, or lets an exception through to its caller, or never comes
  back; in the first two cases it leaves a process state behind.
\<close>

datatype 'a call = Returned 'a pystate | Propagated pyexc pystate | Hangs

fun result_of :: "'a call \<Rightarrow> 'a option" where
  "result_of (Returned r st) = Some r"
| "result_of (Propagated e st) = None"
| "result_of Hangs = None"

text \<open>Lines 106 to 116: tokenize, parse, run.\<close>

definition pipeline :: "('v, 'ast) lang \<Rightarrow> string \<Rightarrow> behaviour" where
  "pipeline L code =
     (case tokenize L code of
        Inl e \<Rightarrow> Throws 0 e
      | Inr tokens \<Rightarrow>
          (case parse L tokens of
             Inl e \<Rightarrow> Throws 0 e
           | Inr ast \<Rightarrow> run L ast))"

definition execute ::
  "env \<Rightarrow> ('v, 'ast) lang \<Rightarrow> string \<Rightarrow> int \<Rightarrow> pystate \<Rightarrow> result call" where
  "execute ev L code timeout st =
     (let start_time = clock_start ev;
          old_stdout = sys_stdout st;
          (captured_output, st1) = StringIO st;
          st2 = st1\<lparr>sys_stdout := captured_output\<rparr>;
          execution_time = clock_end ev - start_time
      in case time_limit ev timeout (pipeline L code) of
           Completes t out \<Rightarrow>
             (let st3 = write_stdout out st2;
                  output = getvalue captured_output st3
              in Returned
                   \<lparr>success = True,
                    program_output = Some (if output = [] then ''Program executed successfully!''
                                   else output),
                    error = None,
                    error_type = None,
                    traceback = None,
                    execution_time = Some (py_round execution_time 4)\<rparr>
                   (st3\<lparr>sys_stdout := old_stdout\<rparr>))
         | Throws t e \<Rightarrow>
             (case exc_base e of
                TimeoutException \<Rightarrow>
                  Returned
                    \<lparr>success = False,
                     program_output = None,
                     error = Some (''Execution timed out after '' @ str_int timeout
                                   @ '' seconds''),
                     error_type = Some ''TimeoutError'',
                     traceback = None,
                     execution_time = Some (py_round execution_time 4)\<rparr>
                    (st2\<lparr>sys_stdout := old_stdout\<rparr>)
              | PuffingError \<Rightarrow>
                  Returned
                    \<lparr>success = False,
                     program_output = None,
                     error = Some (message e),
                     error_type = Some (cls_name e),
                     traceback = Some (format_exc ev e),
                     execution_time = Some (py_round execution_time 4)\<rparr>
                    (st2\<lparr>sys_stdout := old_stdout\<rparr>)
              | OtherException \<Rightarrow>
                  Returned
                    \<lparr>success = False,
                     program_output = None,
                     error = Some (''Unexpected error: '' @ message e),
                     error_type = Some (cls_name e),
                     traceback = Some (format_exc ev e),
                     execution_time = Some (py_round execution_time 4)\<rparr>
                    (st2\<lparr>sys_stdout := old_stdout\<rparr>)
              | BaseOnly \<Rightarrow> Propagated e (st2\<lparr>sys_stdout := old_stdout\<rparr>))
         | Diverges \<Rightarrow> Hangs)"

subsection \<open>\<open>PuffingExecutor.validate_syntax\<close>\<close>

text \<open>A serialized token: the dictionary \<open>{"type": str(token.type), "value": token.value}\<close>.\<close>

record 'v token_dict =
  json_type :: string
  json_value :: 'v

definition serialize :: "'v token \<Rightarrow> 'v token_dict" where
  "serialize token = \<lparr>json_type = tok_type token, json_value = tok_value token\<rparr>"

text \<open>
  The function returns the triple \<open>(is_valid, error_message, tokens)\<close>, or lets an
  exception through (\<open>Inl\<close>). The parser is taken not to change the token list it is given.
\<close>

definition validate_syntax ::
  "('v, 'ast) lang \<Rightarrow> string \<Rightarrow> pyexc + (bool \<times> string option \<times> 'v token_dict list option)" where
  "validate_syntax L code =
     (case (case tokenize L code of
              Inl e \<Rightarrow> Inl e
            | Inr tokens \<Rightarrow>
                (case parse L tokens of
                   Inl e \<Rightarrow> Inl e
                 | Inr ast \<Rightarrow> Inr (map serialize tokens)))
      of Inr token_list \<Rightarrow> Inr (True, None, Some token_list)
       | Inl e \<Rightarrow>
           (case exc_base e of
              PuffingError \<Rightarrow> Inr (False, Some (message e), None)
            | BaseOnly \<Rightarrow> Inl e
            | _ \<Rightarrow> Inr (False, Some (''Unexpected error: '' @ message e), None)))"

subsection \<open>Calls that overlap\<close>

text \<open>
  When several calls of \<open>execute\<close> are in progress in one process (threads on a platform
  where \<open>time_limit\<close> is a plain \<open>yield\<close>), each goes through the same steps, and the
  steps of different calls may alternate. A call whose program prints some texts and
  returns does, in this order: lines 101 and 102 (\<open>Acquire\<close>), one \<open>Print\<close> for each text,
  lines 119 to 129 (\<open>Collect\<close>), line 166 (\<open>Release\<close>). Its local variables are
  \<open>old_stdout\<close> and \<open>captured_output\<close>; \<open>returned\<close> is the dictionary once it is built.
\<close>

datatype action = Acquire | Print string | Collect | Release

record call_state =
  call_env :: env
  todo :: "action list"
  old_stdout :: stream_id
  captured_output :: stream_id
  returned :: "result option"

definition start :: "env \<Rightarrow> string list \<Rightarrow> call_state" where
  "start ev prints =
     \<lparr>call_env = ev, todo = Acquire # map Print prints @ [Collect, Release],
      old_stdout = 0, captured_output = 0, returned = None\<rparr>"

fun step :: "call_state \<Rightarrow> pystate \<Rightarrow> call_state \<times> pystate" where
  "step c st =
     (case todo c of
        [] \<Rightarrow> (c, st)
      | Acquire # rest \<Rightarrow>
          (let (sid, st1) = StringIO st
           in (c\<lparr>todo := rest, old_stdout := sys_stdout st, captured_output := sid\<rparr>,
               st1\<lparr>sys_stdout := sid\<rparr>))
      | Print s # rest \<Rightarrow> (c\<lparr>todo := rest\<rparr>, write_stdout s st)
      | Collect # rest \<Rightarrow>
          (let output = getvalue (captured_output c) st;
               execution_time = clock_end (call_env c) - clock_start (call_env c)
           in (c\<lparr>todo := rest,
                 returned := Some
                   \<lparr>success = True,
                    program_output = Some (if output = [] then ''Program executed successfully!''
                                           else output),
                    error = None,
                    error_type = None,
                    traceback = None,
                    execution_time = Some (py_round execution_time 4)\<rparr>\<rparr>,
               st))
      | Release # rest \<Rightarrow> (c\<lparr>todo := rest\<rparr>, st\<lparr>sys_stdout := old_stdout c\<rparr>))"

text \<open>A schedule names, step by step, the call that moves next.\<close>

fun run_schedule :: "nat list \<Rightarrow> call_state list \<Rightarrow> pystate \<Rightarrow> call_state list \<times> pystate" where
  "run_schedule [] cs st = (cs, st)"
| "run_schedule (i # sched) cs st =
     (if i < length cs
      then (let (c, st1) = step (cs ! i) st in run_schedule sched (cs[i := c]) st1)
      else run_schedule sched cs st)"


subsection \<open>The endpoint \<open>/execute\<close> (backend/app.py)\<close>

text \<open>
  \<open>CodeRequest\<close> has the fields \<open>code\<close> and \<open>timeout\<close> and no other; reading another
  attribute of a pydantic model raises AttributeError. The timeout is taken to be an
  integer (the field also admits \<open>None\<close>).
\<close>

datatype pyval = PyStr string | PyInt int | PyNone | PyList "pyval list"

record CodeRequest =
  request_code :: string
  request_timeout :: int

text \<open>The truth value of an object, as \<open>request.input_values or []\<close> tests it.\<close>

fun truthy :: "pyval \<Rightarrow> bool" where
  "truthy (PyStr s) = (s \<noteq> [])"
| "truthy (PyInt i) = (i \<noteq> 0)"
| "truthy PyNone = False"
| "truthy (PyList vs) = (vs \<noteq> [])"

definition quoted :: "string \<Rightarrow> string" where
  "quoted s = [CHR 0x27] @ s @ [CHR 0x27]"

definition CodeRequest_getattr :: "CodeRequest \<Rightarrow> string \<Rightarrow> pyexc + pyval" where
  "CodeRequest_getattr request name =
     (if name = ''code'' then Inr (PyStr (request_code request))
      else if name = ''timeout'' then Inr (PyInt (request_timeout request))
      else Inl \<lparr>exc_base = OtherException, cls_name = ''AttributeError'',
                message = quoted ''CodeRequest'' @ '' object has no attribute '' @ quoted name\<rparr>)"

text \<open>
  A call \<open>execute(code, timeout, *extra)\<close>: the signature is
  \<open>execute(code: str, timeout: int = 5)\<close>, so any further positional argument makes the
  call itself raise TypeError, before the body runs.
\<close>

definition execute_positional ::
  "env \<Rightarrow> ('v, 'ast) lang \<Rightarrow> string \<Rightarrow> int \<Rightarrow> pyval list \<Rightarrow> pystate \<Rightarrow> result call" where
  "execute_positional ev L code timeout extra st =
     (if extra = [] then execute ev L code timeout st
      else Propagated
             \<lparr>exc_base = OtherException, cls_name = ''TypeError'',
              message = ''PuffingExecutor.execute() takes from 1 to 2 positional arguments but ''
                        @ str_nat (2 + length extra) @ '' were given''\<rparr>
             st)"

text \<open>\<open>str.strip()\<close>, on ASCII text.\<close>

definition isspace :: "char \<Rightarrow> bool" where
  "isspace c = (of_char c \<in> {9, 10, 11, 12, 13, 28, 29, 30, 31, 32 :: nat})"

definition strip :: "string \<Rightarrow> string" where
  "strip s = rev (dropWhile isspace (rev (dropWhile isspace s)))"

text \<open>
  The endpoint answers with the result or with an error status and detail. Every
  \<open>HTTPException\<close> raised inside its \<open>try\<close> is an \<open>Exception\<close>, so the one for empty code
  is caught there too and wrapped; \<open>str\<close> of an \<open>HTTPException\<close> is its status, a colon
  and its detail.
\<close>

datatype http_response = Response result | HTTPError nat string

definition execute_code ::
  "env \<Rightarrow> ('v, 'ast) lang \<Rightarrow> CodeRequest \<Rightarrow> pystate \<Rightarrow> http_response call" where
  "execute_code ev L request st =
     (if strip (request_code request) = []
      then Returned (HTTPError 500 (''Server error: '' @ ''400: Code cannot be empty'')) st
      else
        (case CodeRequest_getattr request ''input_values'' of
           Inl e \<Rightarrow> Returned (HTTPError 500 (''Server error: '' @ message e)) st
         | Inr input_values \<Rightarrow>
             (case execute_positional ev L (request_code request) (request_timeout request)
                     [if truthy input_values then input_values else PyList []] st of
                Returned r st1 \<Rightarrow> Returned (Response r) st1
              | Propagated e st1 \<Rightarrow>
                  (if exc_base e = BaseOnly then Propagated e st1
                   else Returned (HTTPError 500 (''Server error: '' @ message e)) st1)
              | Hangs \<Rightarrow> Hangs)))"

subsection \<open>Programs that exceed a time limit\<close>

text \<open>A run needs more than \<open>d\<close> seconds: it ends later than that, or never.\<close>

fun exceeds :: "behaviour \<Rightarrow> real \<Rightarrow> bool" where
  "exceeds (Completes t out) d = (d < t)"
| "exceeds (Throws t e) d = (d < t)"
| "exceeds Diverges d = True"

subsection \<open>Sample environments, states and collaborators\<close>

text \<open>
  A POSIX main thread and a Windows process, each with a clock that advances by half a
  second during a call; a POSIX thread other than the main one, where \<open>signal.signal\<close>
  raises ValueError; a process that prints to its terminal (stream 0); a language
  whose programs print their own source text after a quarter of a second, the same
  language with a lexer that raises a given exception, and with a lexer that yields two
  tokens of different types; and a language whose lexer yields one token, whose parser
  accepts it, and whose interpreter behaves as given.
\<close>

definition posix_env :: env where
  "posix_env =
     \<lparr>win32 = False, arm_fault = None, clock_start = 100, clock_end = 100.5,
      format_exc = (\<lambda>e. ''Traceback (most recent call last): '' @ cls_name e)\<rparr>"

definition windows_env :: env where
  "windows_env = posix_env\<lparr>win32 := True\<rparr>"

definition idle_state :: pystate where
  "idle_state = \<lparr>sys_stdout = 0, buffers = (\<lambda>sid. []), fresh = 1\<rparr>"

definition echo_lang :: "(string, string) lang" where
  "echo_lang =
     \<lparr>tokenize = (\<lambda>code. Inr [\<lparr>tok_type = ''STRING'', tok_value = code\<rparr>]),
      parse = (\<lambda>tokens. Inr (concat (map tok_value tokens))),
      run = (\<lambda>ast. Completes (1 / 4) ast)\<rparr>"

definition lexer_raising :: "pyexc \<Rightarrow> (string, string) lang" where
  "lexer_raising e = echo_lang\<lparr>tokenize := (\<lambda>code. Inl e)\<rparr>"

definition two_token_lang :: "(string, string) lang" where
  "two_token_lang =
     echo_lang
       \<lparr>tokenize := (\<lambda>code. Inr [\<lparr>tok_type = ''IDENTIFIER'', tok_value = take 1 code\<rparr>,
                                  \<lparr>tok_type = ''NUMBER'', tok_value = drop 1 code\<rparr>])\<rparr>"

definition worker_env :: env where
  "worker_env =
     posix_env
       \<lparr>arm_fault := Some \<lparr>exc_base = OtherException, cls_name = ''ValueError'',
                           message = ''signal only works in main thread of the main interpreter''\<rparr>\<rparr>"

definition program_with :: "behaviour \<Rightarrow> (string, unit) lang" where
  "program_with b =
     \<lparr>tokenize = (\<lambda>code. Inr [\<lparr>tok_type = ''IDENTIFIER'', tok_value = code\<rparr>]),
      parse = (\<lambda>tokens. Inr ()),
      run = (\<lambda>ast. b)\<rparr>"

section \<open>Properties\<close>

subsection \<open>Rounding and the time limit\<close>

lemma py_round_nonneg: "0 \<le> x \<Longrightarrow> 0 \<le> py_round x n"
proof -
  assume x: "0 \<le> x"
  then have "0 \<le> x * 10 ^ n" by simp
  then have "0 \<le> \<lfloor>x * 10 ^ n\<rfloor>" by simp
  then have "0 \<le> (of_int \<lfloor>x * 10 ^ n\<rfloor> :: real)"
    and "0 \<le> (of_int (\<lfloor>x * 10 ^ n\<rfloor> + 1) :: real)"
    by simp_all
  then show ?thesis
    unfolding py_round_def Let_def by simp
qed

lemma alarm_after_pos: "0 < s \<Longrightarrow> s < 2 ^ 32 \<Longrightarrow> alarm_after s = Some (real_of_int s)"
  by (simp add: alarm_after_def)

lemma time_limit_Diverges:
  "time_limit ev timeout b = Diverges \<Longrightarrow>
     b = Diverges \<and> (win32 ev \<or> (arm_fault ev = None \<and> timeout mod 2 ^ 32 = 0))"
  by (auto simp: time_limit_def alarm_after_def
           split: if_splits option.splits behaviour.splits)

lemma time_limit_fires:
  assumes "\<not> win32 ev" and "arm_fault ev = None" and "0 < s" and "s < 2 ^ 32"
    and "exceeds b (real_of_int s)"
  shows "time_limit ev s b = Throws (real_of_int s) timeout_handler"
  using assms by (cases b) (simp_all add: time_limit_def alarm_after_pos)

lemma time_limit_in_budget:
  assumes "win32 ev \<or> arm_fault ev = None" and "0 < s" and "s < 2 ^ 32"
    and "t \<le> real_of_int s"
  shows "time_limit ev s (Completes t out) = Completes t out"
  using assms by (auto simp: time_limit_def alarm_after_pos)

lemma pipeline_run:
  "tokenize L code = Inr tokens \<Longrightarrow> parse L tokens = Inr ast \<Longrightarrow> pipeline L code = run L ast"
  by (simp add: pipeline_def)

subsection \<open>What \<open>execute\<close> does on each outcome of the protected block\<close>

lemma execute_Completes:
  assumes "time_limit ev timeout (pipeline L code) = Completes t out"
  shows "execute ev L code timeout st =
     Returned
       \<lparr>success = True,
        program_output = Some (if out = [] then ''Program executed successfully!'' else out),
        error = None, error_type = None, traceback = None,
        execution_time = Some (py_round (clock_end ev - clock_start ev) 4)\<rparr>
       (st\<lparr>buffers := (buffers st)(fresh st := out), fresh := Suc (fresh st)\<rparr>)"
  using assms
  by (simp add: execute_def StringIO_def write_stdout_def getvalue_def Let_def)

lemma execute_Throws:
  assumes "time_limit ev timeout (pipeline L code) = Throws t e"
  shows "execute ev L code timeout st =
     (case exc_base e of
        TimeoutException \<Rightarrow>
          Returned
            \<lparr>success = False, program_output = None,
             error = Some (''Execution timed out after '' @ str_int timeout @ '' seconds''),
             error_type = Some ''TimeoutError'', traceback = None,
             execution_time = Some (py_round (clock_end ev - clock_start ev) 4)\<rparr>
            (st\<lparr>buffers := (buffers st)(fresh st := []), fresh := Suc (fresh st)\<rparr>)
      | PuffingError \<Rightarrow>
          Returned
            \<lparr>success = False, program_output = None,
             error = Some (message e), error_type = Some (cls_name e),
             traceback = Some (format_exc ev e),
             execution_time = Some (py_round (clock_end ev - clock_start ev) 4)\<rparr>
            (st\<lparr>buffers := (buffers st)(fresh st := []), fresh := Suc (fresh st)\<rparr>)
      | OtherException \<Rightarrow>
          Returned
            \<lparr>success = False, program_output = None,
             error = Some (''Unexpected error: '' @ message e),
             error_type = Some (cls_name e),
             traceback = Some (format_exc ev e),
             execution_time = Some (py_round (clock_end ev - clock_start ev) 4)\<rparr>
            (st\<lparr>buffers := (buffers st)(fresh st := []), fresh := Suc (fresh st)\<rparr>)
      | BaseOnly \<Rightarrow>
          Propagated e
            (st\<lparr>buffers := (buffers st)(fresh st := []), fresh := Suc (fresh st)\<rparr>))"
  using assms
  by (simp add: execute_def StringIO_def Let_def split: exc_class.splits)

lemma execute_Diverges:
  "time_limit ev timeout (pipeline L code) = Diverges \<Longrightarrow>
     execute ev L code timeout st = Hangs"
  by (simp add: execute_def StringIO_def Let_def)


subsection \<open>Evaluating the samples\<close>

lemmas sample_defs = posix_env_def windows_env_def worker_env_def idle_state_def echo_lang_def
  lexer_raising_def two_token_lang_def program_with_def

lemmas execute_defs = execute_def time_limit_def pipeline_def alarm_after_def StringIO_def
  write_stdout_def getvalue_def timeout_handler_def py_round_def Let_def

lemma str_int_5: "str_int 5 = ''5''"
  by code_simp

subsection \<open>The shape of a result\<close>

text \<open>
  C4 as stated fails: the execution time is the difference of two readings of
  \<open>time.time()\<close>, the wall clock, which can be set back between them. With the readings
  100.5 at the start and 100 at the end, a call that succeeds reports a negative time.
\<close>

theorem execute_negative_time_when_clock_set_back:
  "result_of (execute (posix_env\<lparr>clock_start := 100.5, clock_end := 100\<rparr>) echo_lang
       ''A'' 5 idle_state)
   = Some \<lparr>success = True, program_output = Some ''A'', error = None, error_type = None,
           traceback = None, execution_time = Some (- (1 / 2))\<rparr>"
  by (simp add: execute_defs sample_defs)

text \<open>
  C4, amended. A result that \<open>execute\<close> returns fills exactly one of its two branches.
  With \<open>success\<close> true, \<open>output\<close> is present and \<open>error\<close>, \<open>error_type\<close> and \<open>traceback\<close>
  are absent; with \<open>success\<close> false, \<open>output\<close> is absent and \<open>error\<close> and \<open>error_type\<close>
  are present. \<open>execution_time\<close> is present in every case: it is the difference of the
  two clock readings, rounded to four digits, and it is not negative whenever the second
  reading is not earlier than the first.
\<close>

theorem execute_result_branches:
  assumes "execute ev L code timeout st = Returned r st'"
  shows "(success r \<longrightarrow>
            program_output r \<noteq> None \<and> error r = None \<and> error_type r = None
            \<and> traceback r = None)
       \<and> (\<not> success r \<longrightarrow>
            program_output r = None \<and> error r \<noteq> None \<and> error_type r \<noteq> None)
       \<and> execution_time r = Some (py_round (clock_end ev - clock_start ev) 4)
       \<and> (clock_start ev \<le> clock_end ev \<longrightarrow>
            0 \<le> py_round (clock_end ev - clock_start ev) 4)"
proof (cases "time_limit ev timeout (pipeline L code)")
  case (Completes t out)
  with assms show ?thesis by (auto simp: execute_Completes py_round_nonneg)
next
  case (Throws t x)
  with assms show ?thesis
    by (auto simp: execute_Throws py_round_nonneg split: exc_class.splits)
next
  case Diverges
  with assms show ?thesis by (simp add: execute_Diverges)
qed

theorem execute_result_branches_witness:
  "(\<exists>r st'. execute posix_env echo_lang ''A'' 5 idle_state = Returned r st'
        \<and> success r \<and> program_output r \<noteq> None \<and> error r = None \<and> error_type r = None
        \<and> traceback r = None \<and> execution_time r = Some (1 / 2))
 \<and> (\<exists>r st'. execute (posix_env\<lparr>clock_end := 105.002\<rparr>) (program_with Diverges)
               ''while (true) {}'' 5 idle_state = Returned r st'
        \<and> \<not> success r \<and> program_output r = None \<and> error r \<noteq> None
        \<and> error_type r \<noteq> None \<and> execution_time r = Some 5.002)"
proof -
  obtain r1 st1 where h1:
    "execute posix_env echo_lang ''A'' 5 idle_state = Returned r1 st1" and s1: "success r1"
    by (simp add: execute_defs sample_defs)
  obtain r2 st2 where h2:
    "execute (posix_env\<lparr>clock_end := 105.002\<rparr>) (program_with Diverges)
       ''while (true) {}'' 5 idle_state = Returned r2 st2" and s2: "\<not> success r2"
    by (simp add: execute_defs sample_defs)
  have t1: "py_round (clock_end posix_env - clock_start posix_env) 4 = 1 / 2"
    by (simp add: posix_env_def py_round_def)
  have t2: "py_round (clock_end (posix_env\<lparr>clock_end := 105.002\<rparr>)
                       - clock_start (posix_env\<lparr>clock_end := 105.002\<rparr>)) 4 = 5.002"
    by (simp add: posix_env_def py_round_def)
  from execute_result_branches [OF h1] execute_result_branches [OF h2] h1 h2 s1 s2 t1 t2
  show ?thesis by (metis (no_types))
qed

subsection \<open>Programs that print nothing\<close>

text \<open>
  C5 as stated fails: off win32 a call made outside the main thread cannot install the
  handler (\<open>signal.signal\<close> raises ValueError before the program is run), so a valid
  program that would end within the time limit and print nothing gets a failure result.
\<close>

theorem execute_silent_program_fails_in_worker_thread:
  "result_of (execute worker_env (program_with (Completes (1 / 4) [])) ''x = 1;'' 5 idle_state)
   = Some \<lparr>success = False, program_output = None,
           error = Some ''Unexpected error: signal only works in main thread of the main interpreter'',
           error_type = Some ''ValueError'',
           traceback = Some ''Traceback (most recent call last): ValueError'',
           execution_time = Some (1 / 2)\<rparr>"
  by (simp add: execute_defs sample_defs)

text \<open>
  C5, amended. On win32, and elsewhere when the handler and the alarm can be installed
  (the call is made in the main thread), a valid program (it tokenizes and parses) that
  ends within a positive time limit and has printed nothing makes \<open>execute\<close> return
  success with the output \<open>Program executed successfully!\<close>, never the empty string;
  when it has printed something, the output is that text, unchanged.
\<close>

theorem execute_placeholder_or_output:
  assumes "tokenize L code = Inr tokens" and "parse L tokens = Inr ast"
    and "run L ast = Completes t out"
    and "win32 ev \<or> arm_fault ev = None"
    and "0 < timeout" and "timeout < 2 ^ 32" and "t \<le> real_of_int timeout"
  shows "\<exists>r st'. execute ev L code timeout st = Returned r st' \<and> success r \<and>
           program_output r =
             Some (if out = [] then ''Program executed successfully!'' else out)"
proof -
  have "pipeline L code = Completes t out"
    using assms(1-3) by (simp add: pipeline_run)
  then have "time_limit ev timeout (pipeline L code) = Completes t out"
    using assms(4-7) by (simp add: time_limit_in_budget)
  then show ?thesis
    by (simp add: execute_Completes)
qed

theorem execute_placeholder_or_output_witness:
  "\<exists>r st'. execute posix_env (program_with (Completes (1 / 4) [])) ''x = 1;'' 5 idle_state
             = Returned r st'
         \<and> success r \<and> program_output r = Some ''Program executed successfully!''"
  using execute_placeholder_or_output
    [of "program_with (Completes (1 / 4) [])" "''x = 1;''"
        "[\<lparr>tok_type = ''IDENTIFIER'', tok_value = ''x = 1;''\<rparr>]" "()" "1 / 4" "[]"
        posix_env 5 idle_state]
  by (simp add: program_with_def posix_env_def)

subsection \<open>The output target after a call\<close>

text \<open>
  C6. On every path by which \<open>execute\<close> is left (it returns after normal completion,
  after a language error, after a timeout or after an unexpected failure, or an
  exception passes through it), \<open>sys.stdout\<close> is again the stream it was before the call.
\<close>

theorem execute_restores_stdout:
  assumes "execute ev L code timeout st = Returned r st' \<or>
           execute ev L code timeout st = Propagated e st'"
  shows "sys_stdout st' = sys_stdout st"
proof (cases "time_limit ev timeout (pipeline L code)")
  case (Completes t out)
  with assms show ?thesis by (auto simp: execute_Completes)
next
  case (Throws t x)
  with assms show ?thesis by (auto simp: execute_Throws split: exc_class.splits)
next
  case Diverges
  with assms show ?thesis by (simp add: execute_Diverges)
qed

theorem execute_restores_stdout_witness:
  "\<exists>r st'. execute posix_env
              (program_with (Throws (1 / 4)
                 \<lparr>exc_base = PuffingError, cls_name = ''PuffingSyntaxError'',
                  message = ''Unexpected token''\<rparr>))
              ''print(;'' 5 idle_state = Returned r st'
         \<and> sys_stdout st' = sys_stdout idle_state"
proof -
  obtain r st' where h:
    "execute posix_env
       (program_with (Throws (1 / 4)
          \<lparr>exc_base = PuffingError, cls_name = ''PuffingSyntaxError'',
           message = ''Unexpected token''\<rparr>))
       ''print(;'' 5 idle_state = Returned r st'"
    by (simp add: execute_defs sample_defs)
  from execute_restores_stdout [OF disjI1, OF h] h show ?thesis by blast
qed

subsection \<open>Whether \<open>execute\<close> comes back\<close>

text \<open>
  C1 as stated fails: for some source and timeout \<open>execute\<close> returns no result at all.
  On win32 \<open>time_limit\<close> is a plain \<open>yield\<close>, so with a program that loops forever and
  the timeout 5 the call never comes back.
\<close>

theorem execute_hangs_on_windows_loop:
  "execute windows_env (program_with Diverges) ''while (true) {}'' 5 idle_state = Hangs"
  by (simp add: execute_defs sample_defs)

text \<open>
  C1, amended. Whenever the pipeline ends by itself, or the call is made off win32 with
  a timeout that arms the alarm (any timeout but 0 and the multiples of \<open>2^32\<close>) or
  with a handler or alarm that cannot be installed, \<open>execute\<close> comes back, in one of
  three ways. The protected block completed, and a success result is returned. Or the
  block ended with a failure that is an \<open>Exception\<close> (a timeout, a language error,
  anything else), and a failure result is returned, with no output, an error message and
  an error type. Or the block ended with an exception outside \<open>Exception\<close>, and that
  exception passes through to the caller.
\<close>

theorem execute_returns_when_bounded:
  assumes "pipeline L code \<noteq> Diverges
           \<or> (\<not> win32 ev \<and> (arm_fault ev \<noteq> None \<or> timeout mod 2 ^ 32 \<noteq> 0))"
  shows "(\<exists>t out r st'. time_limit ev timeout (pipeline L code) = Completes t out
            \<and> execute ev L code timeout st = Returned r st' \<and> success r)
       \<or> (\<exists>t e r st'. time_limit ev timeout (pipeline L code) = Throws t e
            \<and> exc_base e \<noteq> BaseOnly
            \<and> execute ev L code timeout st = Returned r st' \<and> \<not> success r
            \<and> program_output r = None \<and> error r \<noteq> None \<and> error_type r \<noteq> None)
       \<or> (\<exists>t e st'. time_limit ev timeout (pipeline L code) = Throws t e
            \<and> exc_base e = BaseOnly
            \<and> execute ev L code timeout st = Propagated e st')"
proof (cases "time_limit ev timeout (pipeline L code)")
  case (Completes t out)
  then show ?thesis by (simp add: execute_Completes)
next
  case (Throws t e)
  then show ?thesis by (cases "exc_base e") (simp_all add: execute_Throws)
next
  case Diverges
  from time_limit_Diverges [OF this] assms show ?thesis by auto
qed

theorem execute_returns_when_bounded_witness:
  "(\<exists>r st'. execute posix_env (program_with Diverges) ''while (true) {}'' 5 idle_state
              = Returned r st'
        \<and> \<not> success r \<and> program_output r = None \<and> error r \<noteq> None \<and> error_type r \<noteq> None)
 \<and> (\<exists>st'. execute posix_env
              (program_with (Throws (1 / 4)
                 \<lparr>exc_base = BaseOnly, cls_name = ''KeyboardInterrupt'', message = []\<rparr>))
              ''print(1);'' 5 idle_state
            = Propagated \<lparr>exc_base = BaseOnly, cls_name = ''KeyboardInterrupt'', message = []\<rparr>
                st')"
proof -
  let ?k = "\<lparr>exc_base = BaseOnly, cls_name = ''KeyboardInterrupt'', message = []\<rparr>"
  have b1: "pipeline (program_with Diverges) ''while (true) {}'' \<noteq> Diverges
          \<or> (\<not> win32 posix_env
              \<and> (arm_fault posix_env \<noteq> None \<or> (5::int) mod 2 ^ 32 \<noteq> 0))"
    by (simp add: posix_env_def)
  have t1: "time_limit posix_env 5 (pipeline (program_with Diverges) ''while (true) {}'')
              = Throws 5 timeout_handler"
    by (simp add: time_limit_def pipeline_def alarm_after_def sample_defs)
  have b2: "pipeline (program_with (Throws (1 / 4) ?k)) ''print(1);'' \<noteq> Diverges
          \<or> (\<not> win32 posix_env
              \<and> (arm_fault posix_env \<noteq> None \<or> (5::int) mod 2 ^ 32 \<noteq> 0))"
    by (simp add: posix_env_def)
  have t2: "time_limit posix_env 5 (pipeline (program_with (Throws (1 / 4) ?k)) ''print(1);'')
              = Throws (1 / 4) ?k"
    by (simp add: time_limit_def pipeline_def alarm_after_def sample_defs)
  have first: "\<exists>r st'. execute posix_env (program_with Diverges) ''while (true) {}'' 5
                   idle_state = Returned r st'
        \<and> \<not> success r \<and> program_output r = None \<and> error r \<noteq> None \<and> error_type r \<noteq> None"
    using execute_returns_when_bounded [OF b1, of idle_state]
    unfolding t1 by (auto simp: timeout_handler_def)
  have second: "\<exists>st'. execute posix_env (program_with (Throws (1 / 4) ?k)) ''print(1);'' 5
                   idle_state = Propagated ?k st'"
    using execute_returns_when_bounded [OF b2, of idle_state]
    unfolding t2 by auto
  from first second show ?thesis by blast
qed

subsection \<open>Programs that run past the timeout\<close>

text \<open>
  C2 as stated fails on win32: a program that needs ten seconds, run with the timeout 5,
  is not stopped; the call returns success with the program's output.
\<close>

theorem execute_overrun_succeeds_on_windows:
  "result_of (execute (windows_env\<lparr>clock_end := 110.25\<rparr>)
       (program_with (Completes 10 ''done'')) ''wait(10); print(done);'' 5 idle_state)
   = Some \<lparr>success = True, program_output = Some ''done'', error = None,
           error_type = None, traceback = None, execution_time = Some 10.25\<rparr>"
  by (simp add: execute_defs sample_defs)

text \<open>
  C2, amended. Off win32, when the handler and the alarm can be installed and the timeout
  is a positive number of seconds, every valid program whose run step needs more than
  the timeout (one that never ends included) is ended at the deadline by
  \<open>TimeoutException\<close>, and \<open>execute\<close> returns a failure result with the error type
  \<open>TimeoutError\<close>, a message naming the timeout, and no traceback.
\<close>

theorem execute_timeout_on_posix:
  assumes "\<not> win32 ev" and "arm_fault ev = None" and "0 < timeout" and "timeout < 2 ^ 32"
    and "tokenize L code = Inr tokens" and "parse L tokens = Inr ast"
    and "exceeds (run L ast) (real_of_int timeout)"
  shows "time_limit ev timeout (pipeline L code) = Throws (real_of_int timeout) timeout_handler
       \<and> (\<exists>st'. execute ev L code timeout st =
            Returned
              \<lparr>success = False, program_output = None,
               error = Some (''Execution timed out after '' @ str_int timeout @ '' seconds''),
               error_type = Some ''TimeoutError'', traceback = None,
               execution_time = Some (py_round (clock_end ev - clock_start ev) 4)\<rparr> st')"
proof -
  have "pipeline L code = run L ast"
    using assms(5,6) by (rule pipeline_run)
  with assms(1-4,7)
  have tl: "time_limit ev timeout (pipeline L code)
              = Throws (real_of_int timeout) timeout_handler"
    by (simp add: time_limit_fires)
  have "exc_base timeout_handler = TimeoutException"
    by (simp add: timeout_handler_def)
  with tl show ?thesis by (simp add: execute_Throws)
qed

theorem execute_timeout_on_posix_witness:
  "\<exists>st'. execute (posix_env\<lparr>clock_end := 105.002\<rparr>) (program_with Diverges)
            ''while (true) {}'' 5 idle_state =
          Returned
            \<lparr>success = False, program_output = None,
             error = Some ''Execution timed out after 5 seconds'',
             error_type = Some ''TimeoutError'', traceback = None,
             execution_time = Some 5.002\<rparr> st'"
  using execute_timeout_on_posix
    [of "posix_env\<lparr>clock_end := 105.002\<rparr>" 5 "program_with Diverges" "''while (true) {}''"
        "[\<lparr>tok_type = ''IDENTIFIER'', tok_value = ''while (true) {}''\<rparr>]" "()" idle_state]
  by (simp add: sample_defs str_int_5 py_round_def)

subsection \<open>Unexpected failures\<close>

text \<open>
  C8 as stated fails: the error type of an unexpected failure is not one generic kind
  but the name of the exception's class, and the error message is not the stringified
  failure alone but that text after \<open>Unexpected error: \<close>.
\<close>

theorem execute_unexpected_kind_and_message:
  "result_of (execute posix_env
       (program_with (Throws (1 / 4)
          \<lparr>exc_base = OtherException, cls_name = ''ZeroDivisionError'',
           message = ''division by zero''\<rparr>))
       ''print(1 / 0);'' 5 idle_state)
   = Some \<lparr>success = False, program_output = None,
           error = Some ''Unexpected error: division by zero'',
           error_type = Some ''ZeroDivisionError'',
           traceback = Some ''Traceback (most recent call last): ZeroDivisionError'',
           execution_time = Some (1 / 2)\<rparr>
 \<and> result_of (execute posix_env
       (program_with (Throws (1 / 4)
          \<lparr>exc_base = OtherException, cls_name = ''RecursionError'',
           message = ''maximum recursion depth exceeded''\<rparr>))
       ''f();'' 5 idle_state)
   = Some \<lparr>success = False, program_output = None,
           error = Some ''Unexpected error: maximum recursion depth exceeded'',
           error_type = Some ''RecursionError'',
           traceback = Some ''Traceback (most recent call last): RecursionError'',
           execution_time = Some (1 / 2)\<rparr>"
  by (simp add: execute_defs sample_defs)

text \<open>
  C8, amended. When the protected block ends with a failure that is neither a language
  error nor a timeout (an exception that \<open>except Exception\<close> receives), \<open>execute\<close>
  returns a failure result whose error type is the name of the failure's class, whose
  error message is \<open>Unexpected error: \<close> followed by the stringified failure, and
  which carries the formatted traceback.
\<close>

theorem execute_unexpected_failure:
  assumes "time_limit ev timeout (pipeline L code) = Throws t e"
    and "exc_base e = OtherException"
  shows "\<exists>st'. execute ev L code timeout st =
           Returned
             \<lparr>success = False, program_output = None,
              error = Some (''Unexpected error: '' @ message e),
              error_type = Some (cls_name e),
              traceback = Some (format_exc ev e),
              execution_time = Some (py_round (clock_end ev - clock_start ev) 4)\<rparr> st'"
  using assms by (simp add: execute_Throws)

theorem execute_unexpected_failure_witness:
  "\<exists>st'. execute posix_env
            (program_with (Throws (1 / 4)
               \<lparr>exc_base = OtherException, cls_name = ''KeyError'', message = ''x''\<rparr>))
            ''print(x);'' 5 idle_state =
          Returned
            \<lparr>success = False, program_output = None,
             error = Some ''Unexpected error: x'',
             error_type = Some ''KeyError'',
             traceback = Some ''Traceback (most recent call last): KeyError'',
             execution_time = Some (1 / 2)\<rparr> st'"
proof -
  have h: "time_limit posix_env 5
             (pipeline (program_with (Throws (1 / 4)
                \<lparr>exc_base = OtherException, cls_name = ''KeyError'', message = ''x''\<rparr>))
                ''print(x);'')
        = Throws (1 / 4) \<lparr>exc_base = OtherException, cls_name = ''KeyError'', message = ''x''\<rparr>"
    by (simp add: time_limit_def pipeline_def alarm_after_def sample_defs)
  from execute_unexpected_failure [OF h, of idle_state] show ?thesis
    by (simp add: posix_env_def py_round_def)
qed

subsection \<open>The traceback\<close>

text \<open>
  C10 as stated fails: a failure result can have the error type \<open>TimeoutError\<close> and a
  traceback all the same. Python's built-in \<open>TimeoutError\<close> is an \<open>Exception\<close> that is
  not the service's \<open>TimeoutException\<close>; raised in the pipeline it is reported by the
  \<open>except Exception\<close> clause, under the name of its class.
\<close>

theorem execute_builtin_TimeoutError_has_traceback:
  "result_of (execute posix_env
       (program_with (Throws (1 / 4)
          \<lparr>exc_base = OtherException, cls_name = ''TimeoutError'',
           message = ''timed out''\<rparr>))
       ''fetch();'' 5 idle_state)
   = Some \<lparr>success = False, program_output = None,
           error = Some ''Unexpected error: timed out'',
           error_type = Some ''TimeoutError'',
           traceback = Some ''Traceback (most recent call last): TimeoutError'',
           execution_time = Some (1 / 2)\<rparr>"
  by (simp add: execute_defs sample_defs)

text \<open>
  C10, amended. The traceback of a returned result is a string exactly when the
  protected block ended with a language error or an unexpected failure; it is \<open>None\<close> on
  success and when the block was ended by the service's own \<open>TimeoutException\<close>. When
  no language error or unexpected failure has a class named \<open>TimeoutError\<close>, this is
  the same as: the call failed with an error type other than \<open>TimeoutError\<close>.
\<close>

theorem execute_traceback_iff:
  assumes "execute ev L code timeout st = Returned r st'"
  shows "((traceback r \<noteq> None) =
            (\<exists>t e. time_limit ev timeout (pipeline L code) = Throws t e
                  \<and> (exc_base e = PuffingError \<or> exc_base e = OtherException)))
       \<and> ((\<forall>t e. time_limit ev timeout (pipeline L code) = Throws t e
                 \<and> exc_base e \<noteq> TimeoutException \<longrightarrow> cls_name e \<noteq> ''TimeoutError'')
            \<longrightarrow> (traceback r \<noteq> None)
                  = (\<not> success r \<and> error_type r \<noteq> Some ''TimeoutError''))"
proof (cases "time_limit ev timeout (pipeline L code)")
  case (Completes t out)
  with assms show ?thesis by (auto simp: execute_Completes)
next
  case (Throws t x)
  with assms show ?thesis
    by (cases "exc_base x") (auto simp: execute_Throws)
next
  case Diverges
  with assms show ?thesis by (simp add: execute_Diverges)
qed

theorem execute_traceback_iff_witness:
  "\<exists>r st'. execute posix_env
              (program_with (Throws (1 / 4)
                 \<lparr>exc_base = PuffingError, cls_name = ''PuffingNameError'',
                  message = ''Undefined variable y''\<rparr>))
              ''print(y);'' 5 idle_state = Returned r st'
         \<and> traceback r \<noteq> None \<and> \<not> success r \<and> error_type r \<noteq> Some ''TimeoutError''"
proof -
  let ?e = "\<lparr>exc_base = PuffingError, cls_name = ''PuffingNameError'',
             message = ''Undefined variable y''\<rparr>"
  have tl: "time_limit posix_env 5 (pipeline (program_with (Throws (1 / 4) ?e)) ''print(y);'')
              = Throws (1 / 4) ?e"
    by (simp add: time_limit_def pipeline_def alarm_after_def sample_defs)
  obtain r st' where h:
    "execute posix_env (program_with (Throws (1 / 4) ?e)) ''print(y);'' 5 idle_state
       = Returned r st'"
    by (simp add: execute_Throws [OF tl])
  have names: "\<forall>t e. time_limit posix_env 5
                        (pipeline (program_with (Throws (1 / 4) ?e)) ''print(y);'') = Throws t e
                      \<and> exc_base e \<noteq> TimeoutException \<longrightarrow> cls_name e \<noteq> ''TimeoutError''"
    by (simp add: tl)
  have ex: "\<exists>t e. time_limit posix_env 5
                      (pipeline (program_with (Throws (1 / 4) ?e)) ''print(y);'') = Throws t e
                    \<and> (exc_base e = PuffingError \<or> exc_base e = OtherException)"
    unfolding tl by (intro exI [of _ "1 / 4"] exI [of _ ?e]) simp
  from execute_traceback_iff [OF h] ex names
  have "traceback r \<noteq> None \<and> \<not> success r \<and> error_type r \<noteq> Some ''TimeoutError''"
    by blast
  with h show ?thesis by blast
qed

subsection \<open>\<open>validate_syntax\<close>\<close>

text \<open>
  C7 as stated fails: the last clause of \<open>validate_syntax\<close> is \<open>except Exception\<close>, so
  a failure that is not an \<open>Exception\<close> is received by no clause. When the lexer is
  interrupted (KeyboardInterrupt), \<open>validate_syntax\<close> returns no triple: the exception
  passes through to the caller.
\<close>

theorem validate_syntax_passes_KeyboardInterrupt:
  "validate_syntax
     (lexer_raising \<lparr>exc_base = BaseOnly, cls_name = ''KeyboardInterrupt'', message = []\<rparr>)
     ''x = 1;''
   = Inl \<lparr>exc_base = BaseOnly, cls_name = ''KeyboardInterrupt'', message = []\<rparr>"
  by (simp add: validate_syntax_def sample_defs)

text \<open>
  C7, amended. \<open>validate_syntax\<close> returns \<open>(True, None, tokens)\<close> when the source
  tokenizes and parses, each token serialized as its type and its value, in the lexer's
  order; it returns \<open>(False, message, None)\<close> on a language error of the lexer or the
  parser; on any other failure that is an \<open>Exception\<close> it returns
  \<open>(False, "Unexpected error: " + message, None)\<close>; and an exception outside
  \<open>Exception\<close> passes through to the caller. It never runs the program: the interpreter
  has no part in its result.
\<close>

theorem validate_syntax_cases:
  "(tokenize L code = Inr tokens \<and> parse L tokens = Inr ast \<longrightarrow>
      validate_syntax L code
        = Inr (True, None,
               Some (map (\<lambda>token. \<lparr>json_type = tok_type token, json_value = tok_value token\<rparr>)
                       tokens)))
 \<and> ((tokenize L code = Inl e \<or> (tokenize L code = Inr tokens \<and> parse L tokens = Inl e))
      \<and> exc_base e = PuffingError \<longrightarrow>
      validate_syntax L code = Inr (False, Some (message e), None))
 \<and> ((tokenize L code = Inl e \<or> (tokenize L code = Inr tokens \<and> parse L tokens = Inl e))
      \<and> (exc_base e = OtherException \<or> exc_base e = TimeoutException) \<longrightarrow>
      validate_syntax L code = Inr (False, Some (''Unexpected error: '' @ message e), None))
 \<and> ((tokenize L code = Inl e \<or> (tokenize L code = Inr tokens \<and> parse L tokens = Inl e))
      \<and> exc_base e = BaseOnly \<longrightarrow>
      validate_syntax L code = Inl e)
 \<and> validate_syntax (L\<lparr>run := interpreter\<rparr>) code = validate_syntax L code"
proof -
  have ser: "map serialize tokens
               = map (\<lambda>token. \<lparr>json_type = tok_type token, json_value = tok_value token\<rparr>) tokens"
    by (simp add: serialize_def)
  have valid: "validate_syntax L code
                 = Inr (True, None,
                        Some (map (\<lambda>token. \<lparr>json_type = tok_type token,
                                               json_value = tok_value token\<rparr>) tokens))"
    if "tokenize L code = Inr tokens" and "parse L tokens = Inr ast"
    using that by (simp add: validate_syntax_def ser)
  have failed: "validate_syntax L code =
      (case exc_base e of
         PuffingError \<Rightarrow> Inr (False, Some (message e), None)
       | BaseOnly \<Rightarrow> Inl e
       | _ \<Rightarrow> Inr (False, Some (''Unexpected error: '' @ message e), None))"
    if "tokenize L code = Inl e \<or> (tokenize L code = Inr tokens \<and> parse L tokens = Inl e)"
    using that by (auto simp: validate_syntax_def)
  have language: "validate_syntax L code = Inr (False, Some (message e), None)"
    if "tokenize L code = Inl e \<or> (tokenize L code = Inr tokens \<and> parse L tokens = Inl e)"
      and "exc_base e = PuffingError"
    using failed [OF that(1)] that(2) by simp
  have unexpected:
    "validate_syntax L code = Inr (False, Some (''Unexpected error: '' @ message e), None)"
    if "tokenize L code = Inl e \<or> (tokenize L code = Inr tokens \<and> parse L tokens = Inl e)"
      and "exc_base e = OtherException \<or> exc_base e = TimeoutException"
    using failed [OF that(1)] that(2) by auto
  have passes: "validate_syntax L code = Inl e"
    if "tokenize L code = Inl e \<or> (tokenize L code = Inr tokens \<and> parse L tokens = Inl e)"
      and "exc_base e = BaseOnly"
    using failed [OF that(1)] that(2) by simp
  have no_run: "validate_syntax (L\<lparr>run := interpreter\<rparr>) code = validate_syntax L code"
    by (simp add: validate_syntax_def split: sum.splits)
  from valid language unexpected passes no_run show ?thesis
    by blast
qed

theorem validate_syntax_cases_witness:
  "validate_syntax two_token_lang ''x1''
     = Inr (True, None, Some [\<lparr>json_type = ''IDENTIFIER'', json_value = ''x''\<rparr>,
                              \<lparr>json_type = ''NUMBER'', json_value = ''1''\<rparr>])
 \<and> validate_syntax
      (lexer_raising \<lparr>exc_base = PuffingError, cls_name = ''LexerError'',
                      message = ''Unterminated string''\<rparr>) ''print(abc''
     = Inr (False, Some ''Unterminated string'', None)
 \<and> validate_syntax
      (echo_lang
         \<lparr>parse := (\<lambda>tokens. Inl \<lparr>exc_base = OtherException, cls_name = ''IndexError'',
                                    message = ''list index out of range''\<rparr>)\<rparr>) ''(''
     = Inr (False, Some ''Unexpected error: list index out of range'', None)
 \<and> validate_syntax
      (lexer_raising \<lparr>exc_base = BaseOnly, cls_name = ''SystemExit'', message = ''1''\<rparr>) ''exit''
     = Inl \<lparr>exc_base = BaseOnly, cls_name = ''SystemExit'', message = ''1''\<rparr>"
  using validate_syntax_cases
          [where L = two_token_lang and code = "''x1''"
             and tokens = "[\<lparr>tok_type = ''IDENTIFIER'', tok_value = ''x''\<rparr>,
                            \<lparr>tok_type = ''NUMBER'', tok_value = ''1''\<rparr>]"
             and ast = "''x1''"]
        validate_syntax_cases
          [where L = "lexer_raising \<lparr>exc_base = PuffingError, cls_name = ''LexerError'',
                                     message = ''Unterminated string''\<rparr>"
             and code = "''print(abc''"
             and e = "\<lparr>exc_base = PuffingError, cls_name = ''LexerError'',
                        message = ''Unterminated string''\<rparr>"]
        validate_syntax_cases
          [where L = "echo_lang
                        \<lparr>parse := (\<lambda>tokens. Inl \<lparr>exc_base = OtherException,
                            cls_name = ''IndexError'', message = ''list index out of range''\<rparr>)\<rparr>"
             and code = "''(''"
             and tokens = "[\<lparr>tok_type = ''STRING'', tok_value = ''(''\<rparr>]"
             and e = "\<lparr>exc_base = OtherException, cls_name = ''IndexError'',
                        message = ''list index out of range''\<rparr>"]
        validate_syntax_cases
          [where L = "lexer_raising \<lparr>exc_base = BaseOnly, cls_name = ''SystemExit'',
                                     message = ''1''\<rparr>"
             and code = "''exit''"
             and e = "\<lparr>exc_base = BaseOnly, cls_name = ''SystemExit'', message = ''1''\<rparr>"]
  by (simp add: echo_lang_def lexer_raising_def two_token_lang_def)

subsection \<open>Calls that overlap, and calls that do not\<close>

lemma write_stdout_append: "write_stdout t (write_stdout s st) = write_stdout (s @ t) st"
  by (simp add: write_stdout_def)

lemma write_stdout_Nil: "write_stdout [] st = st"
  by (simp add: write_stdout_def)

lemma run_schedule_append:
  "run_schedule (xs @ ys) cs st =
     (case run_schedule xs cs st of (cs1, st1) \<Rightarrow> run_schedule ys cs1 st1)"
  by (induction xs arbitrary: cs st) (auto simp: Let_def split: prod.splits)

lemma run_prints:
  "todo c = map Print ps @ rest \<Longrightarrow>
     run_schedule (replicate (length ps) 0) [c] st
       = ([c\<lparr>todo := rest\<rparr>], write_stdout (concat ps) st)"
proof (induction ps arbitrary: c st)
  case Nil
  then show ?case by (simp add: write_stdout_Nil)
next
  case (Cons p ps)
  then show ?case by (simp add: write_stdout_append)
qed

text \<open>
  A call that takes all its steps with no other call in between returns what \<open>execute\<close>
  returns for a program that prints the same texts, and leaves the same state.
\<close>

lemma run_alone:
  "run_schedule (replicate (length prints + 3) 0) [start ev prints] st
     = ([\<lparr>call_env = ev, todo = [], old_stdout = sys_stdout st, captured_output = fresh st,
          returned = Some
            \<lparr>success = True,
             program_output = Some (if concat prints = [] then ''Program executed successfully!''
                                    else concat prints),
             error = None, error_type = None, traceback = None,
             execution_time = Some (py_round (clock_end ev - clock_start ev) 4)\<rparr>\<rparr>],
        st\<lparr>buffers := (buffers st)(fresh st := concat prints), fresh := Suc (fresh st)\<rparr>)"
proof -
  have "length prints + 3 = 1 + (length prints + 2)" by simp
  then have r: "replicate (length prints + 3) (0::nat)
                  = [0] @ replicate (length prints) 0 @ [0, 0]"
    by (simp only: replicate_add) (simp add: numeral_2_eq_2)
  define c1 where "c1 = (start ev prints)\<lparr>todo := map Print prints @ [Collect, Release],
      old_stdout := sys_stdout st, captured_output := fresh st\<rparr>"
  define st1 where "st1 = st\<lparr>buffers := (buffers st)(fresh st := []), fresh := Suc (fresh st),
      sys_stdout := fresh st\<rparr>"
  have s1: "run_schedule [0] [start ev prints] st = ([c1], st1)"
    by (simp add: start_def StringIO_def c1_def st1_def)
  have s2: "run_schedule (replicate (length prints) 0) [c1] st1
              = ([c1\<lparr>todo := [Collect, Release]\<rparr>], write_stdout (concat prints) st1)"
    by (rule run_prints) (simp add: c1_def)
  have s3: "run_schedule [0, 0] [c1\<lparr>todo := [Collect, Release]\<rparr>]
              (write_stdout (concat prints) st1)
        = ([\<lparr>call_env = ev, todo = [], old_stdout = sys_stdout st, captured_output = fresh st,
             returned = Some
               \<lparr>success = True,
                program_output = Some (if concat prints = []
                                       then ''Program executed successfully!''
                                       else concat prints),
                error = None, error_type = None, traceback = None,
                execution_time = Some (py_round (clock_end ev - clock_start ev) 4)\<rparr>\<rparr>],
           st\<lparr>buffers := (buffers st)(fresh st := concat prints), fresh := Suc (fresh st)\<rparr>)"
    by (simp add: c1_def st1_def start_def write_stdout_def getvalue_def Let_def)
  have "run_schedule ([0] @ replicate (length prints) 0 @ [0, 0]) [start ev prints] st
          = run_schedule [0, 0] [c1\<lparr>todo := [Collect, Release]\<rparr>]
              (write_stdout (concat prints) st1)"
    by (simp only: run_schedule_append s1 s2 prod.case)
  with s3 show ?thesis
    by (simp only: r)
qed

lemma run_alone_is_execute:
  assumes "time_limit ev timeout (pipeline L code) = Completes t (concat prints)"
    and "run_schedule (replicate (length prints + 3) 0) [start ev prints] st = ([c], st')"
  shows "execute ev L code timeout st = Returned (the (returned c)) st' \<and> returned c \<noteq> None"
  using assms(2) unfolding run_alone execute_Completes [OF assms(1)]
  by auto




subsection \<open>The input values\<close>

text \<open>
  C9. The endpoint passes three arguments to \<open>execute\<close>: the code, the timeout and the
  input values. \<open>execute\<close> takes two, so the call with a third raises TypeError before
  any program runs; and the endpoint does not get that far, since the request model has
  no field \<open>input_values\<close>: for the request with the code \<open>A\<close> and the timeout 5 it
  answers with status 500.
\<close>

theorem execute_rejects_input_values:
  "execute_positional posix_env echo_lang ''A'' 5 [PyList []] idle_state
     = Propagated
         \<lparr>exc_base = OtherException, cls_name = ''TypeError'',
          message = ''PuffingExecutor.execute() takes from 1 to 2 positional arguments but 3 were given''\<rparr>
         idle_state
 \<and> execute_code posix_env echo_lang \<lparr>request_code = ''A'', request_timeout = 5\<rparr> idle_state
     = Returned
         (HTTPError 500
            (''Server error: '' @ quoted ''CodeRequest'' @ '' object has no attribute ''
             @ quoted ''input_values''))
         idle_state"
proof -
  have "str_nat 3 = ''3''"
    by code_simp
  then show ?thesis
    by (simp add: execute_positional_def execute_code_def CodeRequest_getattr_def
          strip_def isspace_def)
qed

end
